theory Spec2Isabelle
  imports Main "HOL-Library.Word" "HOL-Library.AList"
begin

section \<open>Go's float64\<close>

text \<open>
  The metric types of the package compute on Go's \<^verbatim>\<open>float64\<close>, the IEEE 754 binary64
  format. A value is modelled by the fields of its encoding: \<open>Fin s n\<close> is the finite
  number with sign bit \<open>s\<close> (\<open>True\<close> for negative) whose remaining 63 bits, read as a
  number, are \<open>n\<close>: the biased exponent is \<open>n div 2^52\<close> and the fraction is
  \<open>n mod 2^52\<close>. So \<open>Fin False 0\<close> is \<open>+0\<close>, \<open>Fin True 0\<close> is \<open>-0\<close>, and
  \<open>Fin False 0x3FF0000000000000\<close> is \<open>1.0\<close>. \<open>Inf s\<close> is the infinity of sign \<open>s\<close>.
  The bits of a NaN beyond its being a NaN are not modelled: there is one \<open>NaN\<close>, and
  equality of two models is equality of the numbers, infinities or NaN-ness they stand
  for (Go's \<^verbatim>\<open>==\<close>, for which a NaN differs from itself, is \<open>feq\<close> below).
\<close>

datatype float64 = NaN | Inf bool | Fin bool nat

definition biased_exp :: "nat \<Rightarrow> nat" where
  "biased_exp n = n div 2 ^ 52"

definition fraction :: "nat \<Rightarrow> nat" where
  "fraction n = n mod 2 ^ 52"

text \<open>
  The number \<open>Fin s n\<close> stands for is \<open>(-1)^s * significand n * 2^(lsb_exp n)\<close>:
  a subnormal (biased exponent 0) has no hidden bit and the exponent of a normal of
  biased exponent 1.
\<close>

definition significand :: "nat \<Rightarrow> nat" where
  "significand n = (if biased_exp n = 0 then fraction n else 2 ^ 52 + fraction n)"

definition lsb_exp :: "nat \<Rightarrow> int" where
  "lsb_exp n = int (max (biased_exp n) 1) - 1075"

fun bitlen :: "nat \<Rightarrow> nat" where
  "bitlen n = (if n = 0 then 0 else Suc (bitlen (n div 2)))"

declare bitlen.simps [simp del]

text \<open>\<open>rne m k\<close> is \<open>m / 2^k\<close> rounded to the nearest integer, a tie to the even one.\<close>

definition rne :: "nat \<Rightarrow> nat \<Rightarrow> nat" where
  "rne m k =
     (let q = m div 2 ^ k; r = m mod 2 ^ k
      in if 2 ^ k < 2 * r \<or> (2 * r = 2 ^ k \<and> odd q) then q + 1 else q)"

text \<open>
  \<open>fround s m e\<close> is the float64 nearest to \<open>(-1)^s * m * 2^e\<close> (round to nearest,
  ties to even, the rounding of every Go float64 operation): 53 significant bits, no
  bit below \<open>2^-1074\<close>, and an infinity from \<open>2^1024\<close> on. The encoding is monotonic,
  so a significand that rounds up to \<open>2^53\<close> carries into the exponent by the addition.
\<close>

definition fround :: "bool \<Rightarrow> nat \<Rightarrow> int \<Rightarrow> float64" where
  "fround s m e =
     (if m = 0 then Fin s 0
      else
        let e' = max (e + int (bitlen m) - 53) (- 1074);
            m' = (if e' \<le> e then m * 2 ^ nat (e - e') else rne m (nat (e' - e)));
            n = nat (e' + 1074) * 2 ^ 52 + m'
        in if 2047 * 2 ^ 52 \<le> n then Inf s else Fin s n)"

definition signed :: "bool \<Rightarrow> nat \<Rightarrow> int" where
  "signed s m = (if s then - int m else int m)"

text \<open>
  Go's \<^verbatim>\<open>x + y\<close> on float64: the exact sum, rounded. An exact zero sum is \<open>+0\<close>
  unless both operands are \<open>-0\<close>; opposite infinities give a NaN.
\<close>

fun fadd :: "float64 \<Rightarrow> float64 \<Rightarrow> float64" where
  "fadd NaN y = NaN"
| "fadd x NaN = NaN"
| "fadd (Inf s) (Inf t) = (if s = t then Inf s else NaN)"
| "fadd (Inf s) (Fin t b) = Inf s"
| "fadd (Fin s a) (Inf t) = Inf t"
| "fadd (Fin s a) (Fin t b) =
     (let e = min (lsb_exp a) (lsb_exp b);
          x = signed s (significand a * 2 ^ nat (lsb_exp a - e));
          y = signed t (significand b * 2 ^ nat (lsb_exp b - e));
          v = x + y
      in if v = 0 then Fin (s \<and> t) 0 else fround (v < 0) (nat \<bar>v\<bar>) e)"

text \<open>Go's comparisons \<^verbatim>\<open>x < y\<close> and \<^verbatim>\<open>x == y\<close>: false on a NaN, and \<open>-0 == +0\<close>.\<close>

fun flt :: "float64 \<Rightarrow> float64 \<Rightarrow> bool" where
  "flt NaN y = False"
| "flt x NaN = False"
| "flt (Inf s) (Inf t) = (s \<and> \<not> t)"
| "flt (Inf s) (Fin t b) = s"
| "flt (Fin s a) (Inf t) = (\<not> t)"
| "flt (Fin s a) (Fin t b) = (signed s a < signed t b)"

fun feq :: "float64 \<Rightarrow> float64 \<Rightarrow> bool" where
  "feq (Inf s) (Inf t) = (s = t)"
| "feq (Fin s a) (Fin t b) = (signed s a = signed t b)"
| "feq x y = False"

fun Signbit :: "float64 \<Rightarrow> bool" where
  "Signbit NaN = False"
| "Signbit (Inf s) = s"
| "Signbit (Fin s n) = s"

text \<open>
  \<^verbatim>\<open>math.Min\<close> and \<^verbatim>\<open>math.Max\<close> of Go's standard library, case by case as the library
  has them: the absorbing infinity first, then a NaN operand, then the signed zeros,
  then the comparison.
\<close>

definition math_Min :: "float64 \<Rightarrow> float64 \<Rightarrow> float64" where
  "math_Min x y =
     (if x = Inf True \<or> y = Inf True then Inf True
      else if x = NaN \<or> y = NaN then NaN
      else if feq x (Fin False 0) \<and> feq x y then (if Signbit x then x else y)
      else if flt x y then x else y)"

definition math_Max :: "float64 \<Rightarrow> float64 \<Rightarrow> float64" where
  "math_Max x y =
     (if x = Inf False \<or> y = Inf False then Inf False
      else if x = NaN \<or> y = NaN then NaN
      else if feq x (Fin False 0) \<and> feq x y then (if Signbit x then y else x)
      else if flt y x then x else y)"

text \<open>
  \<^verbatim>\<open>math.Pow(x, 2)\<close>, the only power the package takes. The library returns 1 for
  \<open>x == 1\<close>, a NaN for a NaN, \<open>+0\<close> for a zero and \<open>+Inf\<close> for an infinity; otherwise it
  splits \<open>x\<close> into a fraction in \<open>[1/2, 1)\<close> and an exponent \<open>xe\<close> (\<^verbatim>\<open>Frexp\<close>),
  squares the fraction (one rounding), and scales the square by \<open>2^(2 * xe)\<close>
  (\<^verbatim>\<open>Ldexp\<close>, a second rounding when the result is subnormal or overflows).
\<close>

definition math_Pow_2 :: "float64 \<Rightarrow> float64" where
  "math_Pow_2 x =
     (if x = Fin False 0x3FF0000000000000 then x
      else case x of
        NaN \<Rightarrow> NaN
      | Inf s \<Rightarrow> Inf False
      | Fin s n \<Rightarrow>
          if n = 0 then Fin False 0
          else
            let m = significand n; l = bitlen m; xe = lsb_exp n + int l
            in case fround False (m * m) (- 2 * int l) of
                 Fin t k \<Rightarrow> fround False (significand k) (lsb_exp k + 2 * xe)
               | other \<Rightarrow> other)"

section \<open>Metrics\<close>

text \<open>
  \<^verbatim>\<open>RangeMetric\<close> is the struct of the five running aggregates. \<^verbatim>\<open>Count\<close> is a Go
  \<^verbatim>\<open>int\<close>, 64 bits wide on the platforms the package runs on, and its additions wrap.
  The fields \<^verbatim>\<open>Min\<close> and \<^verbatim>\<open>Max\<close> are \<open>Min_v\<close> and \<open>Max_v\<close> here.
\<close>

record RangeMetric =
  Total :: float64
  Count :: "64 word"
  Min_v :: float64
  Max_v :: float64
  Square :: float64

text \<open>
  The interface \<^verbatim>\<open>Metric\<close> has the two implementations of the package,
  \<^verbatim>\<open>ScalarMetric\<close> (a float64) and \<^verbatim>\<open>RangeMetric\<close>; its doc comment asks that no other
  library implement it, so the \<^verbatim>\<open>default\<close> branch of \<^verbatim>\<open>RangeMetric.Merge\<close> (hand the merge
  to a metric of an unknown type) has no case here.
\<close>

datatype Metric = ScalarMetric float64 | RangeMetric RangeMetric

definition ScalarMetric_Add :: "float64 \<Rightarrow> float64 \<Rightarrow> Metric" where
  "ScalarMetric_Add f v =
     RangeMetric \<lparr>Total = fadd f v, Count = 2, Min_v = math_Min v f, Max_v = math_Max v f,
       Square = fadd (math_Pow_2 f) (math_Pow_2 v)\<rparr>"

definition RangeMetric_Add :: "RangeMetric \<Rightarrow> float64 \<Rightarrow> Metric" where
  "RangeMetric_Add r v =
     RangeMetric \<lparr>Total = fadd (Total r) v, Count = Count r + 1, Min_v = math_Min v (Min_v r),
       Max_v = math_Max v (Max_v r), Square = fadd (Square r) (math_Pow_2 v)\<rparr>"

text \<open>The method call \<^verbatim>\<open>m.Add(v)\<close> on a value of the interface type.\<close>

fun Add :: "Metric \<Rightarrow> float64 \<Rightarrow> Metric" where
  "Add (ScalarMetric f) v = ScalarMetric_Add f v"
| "Add (RangeMetric r) v = RangeMetric_Add r v"

definition RangeMetric_Merge :: "RangeMetric \<Rightarrow> Metric \<Rightarrow> Metric" where
  "RangeMetric_Merge r other =
     (case other of
        ScalarMetric f \<Rightarrow>
          RangeMetric \<lparr>Total = fadd (Total r) f, Count = Count r + 1,
            Min_v = math_Min (Min_v r) f, Max_v = math_Max (Max_v r) f,
            Square = fadd (Square r) (math_Pow_2 f)\<rparr>
      | RangeMetric o' \<Rightarrow>
          RangeMetric \<lparr>Total = fadd (Total r) (Total o'), Count = Count r + Count o',
            Min_v = math_Min (Min_v r) (Min_v o'), Max_v = math_Max (Max_v r) (Max_v o'),
            Square = fadd (Square r) (Square o')\<rparr>)"

text \<open>
  \<^verbatim>\<open>ScalarMetric.Merge\<close> promotes the scalar to a range of one sample and calls the
  \<^verbatim>\<open>Merge\<close> of the other metric on it. \<open>Merge\<close> is the method call on the interface
  type; a scalar receiver makes at most two such calls before a range receives.
\<close>

definition promote :: "float64 \<Rightarrow> RangeMetric" where
  "promote f = \<lparr>Total = f, Count = 1, Min_v = f, Max_v = f, Square = math_Pow_2 f\<rparr>"

fun scalars :: "Metric \<Rightarrow> nat" where
  "scalars (ScalarMetric f) = 1"
| "scalars (RangeMetric r) = 0"

function Merge :: "Metric \<Rightarrow> Metric \<Rightarrow> Metric" where
  "Merge (ScalarMetric f) other = Merge other (RangeMetric (promote f))"
| "Merge (RangeMetric r) other = RangeMetric_Merge r other"
  by pat_completeness auto
termination
proof (relation "measure (\<lambda>(m, other). 2 * scalars m + scalars other)")
  show "wf (measure (\<lambda>(m, other). 2 * scalars m + scalars other))"
    by simp
next
  fix f other
  show "((other, RangeMetric (promote f)), (ScalarMetric f, other))
          \<in> measure (\<lambda>(m, other). 2 * scalars m + scalars other)"
    by (cases other) simp_all
qed

definition ScalarMetric_Merge :: "float64 \<Rightarrow> Metric \<Rightarrow> Metric" where
  "ScalarMetric_Merge f other = Merge other (RangeMetric (promote f))"

text \<open>
  The range a metric merges as: a range itself, a scalar as \<^verbatim>\<open>ScalarMetric.Merge\<close>
  promotes it.
\<close>

fun as_range :: "Metric \<Rightarrow> RangeMetric" where
  "as_range (ScalarMetric f) = promote f"
| "as_range (RangeMetric r) = r"

section \<open>Errors\<close>

text \<open>
  A Go \<^verbatim>\<open>error\<close> is an \<open>error option\<close>, \<open>None\<close> for \<^verbatim>\<open>nil\<close>. \<open>Error\<close> is the package's
  own \<^verbatim>\<open>*Error\<close> (message, code, inner error); \<open>MarshalerError\<close> is
  \<^verbatim>\<open>*json.MarshalerError\<close>, which \<^verbatim>\<open>sendRequest\<close> tells apart; \<open>errorString\<close> is any
  other error, with its message: what \<^verbatim>\<open>fmt.Errorf\<close> makes, and the errors of the HTTP
  client, of the compressor and of the response body.
\<close>

datatype error =
    Error string int "error option"
  | MarshalerError string
  | errorString string

fun Error_string :: "error \<Rightarrow> string" where
  "Error_string (Error msg code inner) =
     (case inner of
        None \<Rightarrow> ''skunk: '' @ msg
      | Some e \<Rightarrow> (''skunk: '' @ msg) @ '': '' @ Error_string e)"
| "Error_string (MarshalerError s) = s"
| "Error_string (errorString s) = s"

definition ErrNameTooLong :: int where "ErrNameTooLong = 1"
definition ErrNoName :: int where "ErrNoName = 2"
definition ErrNoGUID :: int where "ErrNoGUID = 3"
definition ErrNoAPIKey :: int where "ErrNoAPIKey = 4"
definition ErrNoHost :: int where "ErrNoHost = 5"
definition ErrNoVersion :: int where "ErrNoVersion = 6"
definition ErrNotRunning :: int where "ErrNotRunning = 7"
definition ErrNilOpReceived :: int where "ErrNilOpReceived = 8"
definition ErrEmptyPayload :: int where "ErrEmptyPayload = 9"
definition ErrBadPayload :: int where "ErrBadPayload = 10"
definition ErrForbidden :: int where "ErrForbidden = 11"
definition ErrBadRequest :: int where "ErrBadRequest = 12"
definition ErrBodyTooLarge :: int where "ErrBodyTooLarge = 13"
definition ErrEncodingJSON :: int where "ErrEncodingJSON = 14"
definition errNoMetrics :: int where "errNoMetrics = 15"
definition errMustRetry :: int where "errMustRetry = 16"
definition errShuttingDown :: int where "errShuttingDown = 17"

text \<open>The map \<^verbatim>\<open>errMessages\<close>; a code that is not a key reads as the empty string.\<close>

definition errMessages :: "int \<Rightarrow> string" where
  "errMessages code =
     (case map_of
        [(ErrNameTooLong, ''component name is too long. component names must be <= 32 characters''),
         (ErrNoName, ''component name is empty''),
         (ErrNoGUID, ''component GUID is empty''),
         (ErrNoAPIKey, ''no API key given''),
         (ErrNoHost, ''agent host is empty''),
         (ErrNoVersion, ''agent version is empty''),
         (ErrNotRunning, ''agent is not running''),
         (ErrNilOpReceived, ''received a nil Op''),
         (ErrEmptyPayload, ''payload was empty''),
         (ErrBadPayload, ''malformed payload sent''),
         (ErrForbidden, ''API key was not accepted''),
         (ErrBadRequest, ''malformed request''),
         (ErrBodyTooLarge, ''too many components and/or metrics in body''),
         (ErrEncodingJSON, ''encountered an error in encoding a JSON payload''),
         (errNoMetrics, ''nothing to send''),
         (errMustRetry, ''must retry this request''),
         (errShuttingDown, ''agent is shutting down'')] code of
        Some m \<Rightarrow> m
      | None \<Rightarrow> [])"

definition mkerr :: "int \<Rightarrow> error option \<Rightarrow> error" where
  "mkerr code inner = Error (errMessages code) code inner"

fun iserr :: "error option \<Rightarrow> int \<Rightarrow> bool" where
  "iserr (Some (Error msg c inner)) code = (c = code)"
| "iserr e code = False"

text \<open>The verb \<^verbatim>\<open>%d\<close> of package \<^verbatim>\<open>fmt\<close>: an integer in decimal.\<close>

fun show_nat :: "nat \<Rightarrow> string" where
  "show_nat n =
     (if n < 10 then [''0123456789'' ! n]
      else show_nat (n div 10) @ [''0123456789'' ! (n mod 10)])"

declare show_nat.simps [simp del]

definition show_int :: "int \<Rightarrow> string" where
  "show_int i = (if i < 0 then ''-'' @ show_nat (nat (- i)) else show_nat (nat i))"

section \<open>The body of a POST\<close>

text \<open>
  A \<^verbatim>\<open>time.Time\<close> is the number of nanoseconds since the zero time (the instant
  \<^verbatim>\<open>time.Time{}\<close>, for which \<^verbatim>\<open>IsZero\<close> holds); a \<^verbatim>\<open>time.Duration\<close> is an \<^verbatim>\<open>int64\<close>
  of nanoseconds, and \<^verbatim>\<open>Sub\<close> saturates at its least and greatest value.
\<close>

type_synonym Time = int
type_synonym Duration = int

definition IsZero :: "Time \<Rightarrow> bool" where
  "IsZero t = (t = 0)"

definition minDuration :: Duration where
  "minDuration = - (2 ^ 63)"

definition maxDuration :: Duration where
  "maxDuration = 2 ^ 63 - 1"

definition Sub :: "Time \<Rightarrow> Time \<Rightarrow> Duration" where
  "Sub t u =
     (if t - u < minDuration then minDuration
      else if maxDuration < t - u then maxDuration
      else t - u)"

text \<open>
  \<^verbatim>\<open>Metrics\<close> is a Go map from metric names to metrics: an association list with
  one entry for a key, so that \<^verbatim>\<open>len(m) == 0\<close> is \<open>m = []\<close>.
\<close>

type_synonym Metrics = "(string \<times> Metric) list"

definition Metrics_AddMetric :: "Metrics \<Rightarrow> string \<Rightarrow> Metric \<Rightarrow> Metrics" where
  "Metrics_AddMetric m name val =
     (case map_of m name of
        Some met \<Rightarrow> AList.update name (Merge val met) m
      | None \<Rightarrow> AList.update name val m)"

definition Metrics_MergeMetrics :: "Metrics \<Rightarrow> Metrics \<Rightarrow> Metrics" where
  "Metrics_MergeMetrics m metrics = fold (\<lambda>(k, v) m'. Metrics_AddMetric m' k v) metrics m"

record AgentRep =
  Host :: string
  PID :: int
  Version :: string

text \<open>
  A \<^verbatim>\<open>Component\<close>; \<open>Duration\<close> is the field \<^verbatim>\<open>Duration.Duration\<close> of the embedded
  \<^verbatim>\<open>Seconds\<close>. The pointer to the owning agent is left out: a component is owned by the
  agent in whose body it stands.
\<close>

record Component =
  Name :: string
  GUID :: string
  Duration :: Duration
  Metrics :: Metrics
  start :: Time

record Body =
  Agent :: AgentRep
  Components :: "Component list"

definition updateTiming :: "Component \<Rightarrow> Time \<Rightarrow> Component" where
  "updateTiming c now =
     (if IsZero (start c) then c\<lparr>start := now, Duration := 0\<rparr>
      else c\<lparr>Duration := Sub now (start c)\<rparr>)"

section \<open>The world outside the agent\<close>

text \<open>
  What an HTTP response gives \<^verbatim>\<open>sendRequest\<close>: the status code and status text, and
  the errors, if any, of reading the rest of its body and of closing it.
\<close>

record Response =
  StatusCode :: int
  Status :: string
  Body_Copy_err :: "error option"
  Body_Close_err :: "error option"

text \<open>
  A request handed to the HTTP client. Its body is the JSON encoding of a snapshot,
  gzip-compressed or not: the bytes are determined by the snapshot and the flag, which
  stand for them.
\<close>

record Request =
  Method :: string
  URL :: string
  Header :: "(string \<times> string) list"
  Payload :: Body
  Gzip :: bool

text \<open>
  What the world answers during one call of \<^verbatim>\<open>sendRequest\<close>: whether encoding the
  snapshot fails (with and without compression), whether \<^verbatim>\<open>http.NewRequest\<close> fails, and
  what \<^verbatim>\<open>Client.Do\<close> returns, an error (with or without a response) or a response.
\<close>

record World =
  Encode_err :: "bool \<Rightarrow> error option"
  NewRequest_err :: "error option"
  Do_result :: "(error \<times> Response option) + Response"

datatype log_entry = Line string | MetricsTable "Component list"

section \<open>The agent\<close>

text \<open>
  The fields of \<^verbatim>\<open>Agent\<close> that the runloop reads and writes. \<open>Log\<close> is what has been
  written to the writer \<^verbatim>\<open>a.Log\<close>, in order, and \<open>Log_Discard\<close> says that the writer is
  \<^verbatim>\<open>ioutil.Discard\<close>; \<open>posted\<close> is what \<^verbatim>\<open>a.Client\<close> has been asked to send, in order;
  \<open>ops_closed\<close> says that the channel \<^verbatim>\<open>a.ops\<close> has been closed.
\<close>

record Agent =
  Cycle :: Duration
  LogMetrics :: bool
  Log_Discard :: bool
  Log :: "log_entry list"
  posted :: "Request list"
  apiURL :: string
  apiKey :: string
  body :: Body
  err :: "error option"
  lastPoll :: Time
  ops_closed :: bool

definition MinuteCycle :: Duration where
  "MinuteCycle = 60 * 1000000000"

definition NewRelicAPI :: string where
  "NewRelicAPI = ''https://platform-api.newrelic.com/platform/v1/metrics''"

definition NewWithRep :: "string \<Rightarrow> AgentRep \<Rightarrow> Time \<Rightarrow> error option \<times> Agent option" where
  "NewWithRep key rep now =
     (if length key = 0 then (Some (mkerr ErrNoAPIKey None), None)
      else if length (Version rep) = 0 then (Some (mkerr ErrNoVersion None), None)
      else if length (Host rep) = 0 then (Some (mkerr ErrNoHost None), None)
      else (None, Some \<lparr>Cycle = MinuteCycle, LogMetrics = False, Log_Discard = True, Log = [],
        posted = [], apiURL = NewRelicAPI, apiKey = key,
        body = \<lparr>Agent = rep, Components = []\<rparr>, err = None, lastPoll = now,
        ops_closed = False\<rparr>))"

definition writeLog :: "Agent \<Rightarrow> string \<Rightarrow> Agent" where
  "writeLog a s = a\<lparr>Log := Log a @ [Line s]\<rparr>"

definition statusError :: "Response \<Rightarrow> error option" where
  "statusError resp =
     (let code = StatusCode resp
      in if code \<ge> 200 \<and> code < 300 then None
         else if code = 400 then Some (mkerr ErrBadPayload None)
         else if code = 403 then Some (mkerr ErrForbidden None)
         else if code = 404 then Some (mkerr ErrBadRequest None)
         else if code = 405 then Some (mkerr ErrBadRequest None)
         else if code = 413 then Some (mkerr ErrBodyTooLarge None)
         else if code \<ge> 500 \<and> code < 600 then Some (mkerr errMustRetry None)
         else Some (errorString (''skunk: got unexpected status code '' @ show_int code @ '' ''
                @ Status resp @ '' from NewRelic.'')))"

text \<open>
  \<^verbatim>\<open>clear\<close>: every component gets a new, empty map, a zero duration and the zero
  time as its start.
\<close>

definition clear :: "Agent \<Rightarrow> Agent" where
  "clear a =
     a\<lparr>body := (body a)\<lparr>Components :=
       map (\<lambda>c. c\<lparr>Metrics := [], Duration := 0, start := 0\<rparr>) (Components (body a))\<rparr>\<rparr>"

text \<open>
  The loop of \<^verbatim>\<open>getPayload\<close> over the components: one without metrics or without a
  start is skipped; of the others a copy is taken, with the duration from the start to
  \<open>from\<close>, or zero if that is negative.
\<close>

fun dupes :: "Component list \<Rightarrow> Time \<Rightarrow> Component list" where
  "dupes [] from = []"
| "dupes (com # coms) from =
     (if length (Metrics com) = 0 \<or> IsZero (start com) then dupes coms from
      else (let d = Sub from (start com)
            in com\<lparr>Duration := (if d < 0 then 0 else d)\<rparr>) # dupes coms from)"

text \<open>
  \<^verbatim>\<open>getPayload\<close> returns an error, or has written the encoded snapshot to the
  buffer: \<open>Inr\<close> of the snapshot then.
\<close>

definition getPayload :: "Agent \<Rightarrow> World \<Rightarrow> Time \<Rightarrow> bool \<Rightarrow> error + Body" where
  "getPayload a w from compressed =
     (let b = (body a)\<lparr>Components := dupes (Components (body a)) from\<rparr>
      in if length (Components b) = 0 then Inl (mkerr errNoMetrics None)
         else case Encode_err w compressed of
                Some e \<Rightarrow> Inl e
              | None \<Rightarrow> Inr b)"

text \<open>
  The part of \<^verbatim>\<open>sendRequest\<close> after the payload is there. The struct \<^verbatim>\<open>nrErr\<close> is
  handed to the decoder by value, so its field is empty whatever the decoder does, and
  the vendor's message is never logged. The deferred closing of the body is the last
  thing to happen.
\<close>

definition closeBody :: "Agent \<Rightarrow> Response \<Rightarrow> Agent" where
  "closeBody a resp =
     (case Body_Close_err resp of
        None \<Rightarrow> a
      | Some closeErr \<Rightarrow>
          writeLog a (''skunk: error closing response body: '' @ Error_string closeErr @ [CHR 0x0A]))"

definition post :: "Agent \<Rightarrow> World \<Rightarrow> bool \<Rightarrow> Body \<Rightarrow> error option \<times> Agent" where
  "post a w compressed b =
     (case NewRequest_err w of
        Some e \<Rightarrow> (Some e, a)
      | None \<Rightarrow>
          let req = \<lparr>Method = ''POST'', URL = apiURL a,
                Header = [(''X-License-Key'', apiKey a), (''Content-Type'', ''application/json''),
                  (''Accept'', ''application/json'')]
                  @ (if compressed then [(''Content-Encoding'', ''gzip'')] else []),
                Payload = b, Gzip = compressed\<rparr>;
              a1 = a\<lparr>posted := posted a @ [req]\<rparr>
          in case Do_result w of
               Inl (e, None) \<Rightarrow> (Some e, a1)
             | Inl (e, Some resp) \<Rightarrow> (Some e, closeBody a1 resp)
             | Inr resp \<Rightarrow>
                 if StatusCode resp = 200 then (None, closeBody a1 resp)
                 else
                   let nrErr_Error = [];
                       a2 = (if length nrErr_Error > 0
                             then writeLog a1 (''skunk: received NewRelic error: '' @ nrErr_Error @ [CHR 0x0A])
                             else a1);
                       a3 = (case Body_Copy_err resp of
                               None \<Rightarrow> a2
                             | Some e \<Rightarrow>
                                 writeLog a2 (''skunk: error discarding body remainder: ''
                                   @ Error_string e @ [CHR 0x0A]))
                   in (statusError resp, closeBody a3 resp))"

text \<open>
  \<^verbatim>\<open>sendRequest\<close> from the label \<^verbatim>\<open>tryGetPayload\<close> on, with the value of \<^verbatim>\<open>compressed\<close>:
  an error of \<^verbatim>\<open>getPayload\<close> that is neither "nothing to send" nor a marshaler's sends
  it back to the label once, without compression.
\<close>

fun is_MarshalerError :: "error \<Rightarrow> bool" where
  "is_MarshalerError (MarshalerError s) = True"
| "is_MarshalerError e = False"

function tryGetPayload :: "bool \<Rightarrow> Agent \<Rightarrow> World \<Rightarrow> Time \<Rightarrow> error option \<times> Agent" where
  "tryGetPayload compressed a w from =
     (case getPayload a w from compressed of
        Inr b \<Rightarrow> post a w compressed b
      | Inl e \<Rightarrow>
          if iserr (Some e) errNoMetrics then (None, a)
          else if is_MarshalerError e then (Some (mkerr ErrEncodingJSON (Some e)), a)
          else if compressed then tryGetPayload False a w from
          else (Some e, a))"
  by pat_completeness auto
termination
  by (relation "measure (\<lambda>(compressed, a, w, from). if compressed then 1 else 0)") auto

declare tryGetPayload.simps [simp del]

definition sendRequest :: "Agent \<Rightarrow> Time \<Rightarrow> World \<Rightarrow> error option \<times> Agent" where
  "sendRequest a from w = tryGetPayload True a w from"

text \<open>
  \<^verbatim>\<open>logMetrics\<close> hands a copy of the components that have metrics to a goroutine that
  formats them and writes the table to the log; the table stands in the log where the
  goroutine is started.
\<close>

definition logMetrics :: "Agent \<Rightarrow> Agent" where
  "logMetrics a =
     (if Log_Discard a then a
      else
        let components = filter (\<lambda>c. length (Metrics c) > 0) (Components (body a))
        in if length components = 0 then a
           else a\<lparr>Log := Log a @ [MetricsTable components]\<rparr>)"

section \<open>Operations sent to the runloop\<close>

text \<open>
  The values sent on the channel \<^verbatim>\<open>a.ops\<close> are functions of the package: \<^verbatim>\<open>shutdown\<close>,
  the method values \<^verbatim>\<open>opGetErr(out).Exec\<close> and \<^verbatim>\<open>addComponent{name, guid, out}.Exec\<close>,
  and the closures of \<^verbatim>\<open>MergeMetric\<close> and \<^verbatim>\<open>MergeMetrics\<close>. Each is a case of \<open>opFunc\<close>
  with what it closes over and what it gets from outside when it runs: the current time
  and, for \<^verbatim>\<open>shutdown\<close>, the answers of the world. A component pointer is the position
  of the component in the body of its agent. What an operation sends on its \<^verbatim>\<open>out\<close>
  channel is a \<open>reply\<close>.
\<close>

datatype opFunc =
    Op_shutdown Time World
  | Op_GetErr
  | Op_addComponent string string
  | Op_MergeMetric nat string Metric Time
  | Op_MergeMetrics nat Metrics Time

datatype reply = err_reply "error option" | component_reply nat

definition shutdown :: "Time \<Rightarrow> World \<Rightarrow> Agent \<Rightarrow> error option \<times> reply option \<times> Agent" where
  "shutdown now w a =
     (let (e, a1) = sendRequest a now w;
          a2 = (if iserr e errMustRetry
                then writeLog a1 (''skunk: received 50x error from NewRelic on shutdown flush - dropping payload on the floor'' @ [CHR 0x0A])
                else case e of
                       Some e' \<Rightarrow>
                         (writeLog a1 (''skunk: received error on sending to NewRelic: '' @ Error_string e' @ [CHR 0x0A]))
                           \<lparr>err := e\<rparr>
                     | None \<Rightarrow> a1)
      in (Some (mkerr errShuttingDown None), None, a2\<lparr>ops_closed := True\<rparr>))"

definition opGetErr_Exec :: "Agent \<Rightarrow> error option \<times> reply option \<times> Agent" where
  "opGetErr_Exec a = (None, Some (err_reply (err a)), a)"

fun find_component :: "Component list \<Rightarrow> string \<Rightarrow> string \<Rightarrow> nat option" where
  "find_component [] name guid = None"
| "find_component (c # cs) name guid =
     (if Name c = name \<and> GUID c = guid then Some 0
      else map_option Suc (find_component cs name guid))"

definition addComponent_Exec :: "string \<Rightarrow> string \<Rightarrow> Agent \<Rightarrow> error option \<times> reply option \<times> Agent" where
  "addComponent_Exec name guid a =
     (case find_component (Components (body a)) name guid of
        Some i \<Rightarrow> (None, Some (component_reply i), a)
      | None \<Rightarrow>
          let c = \<lparr>Name = name, GUID = guid, Duration = 0, Metrics = [], start = 0\<rparr>
          in (None, Some (component_reply (length (Components (body a)))),
              a\<lparr>body := (body a)\<lparr>Components := Components (body a) @ [c]\<rparr>\<rparr>))"

text \<open>
  An operation on a component changes the component at its position (a position beyond
  the body does not arise: components are only ever appended).
\<close>

definition on_component :: "nat \<Rightarrow> (Component \<Rightarrow> Component) \<Rightarrow> Agent \<Rightarrow> Agent" where
  "on_component i f a =
     (if i < length (Components (body a))
      then a\<lparr>body := (body a)\<lparr>Components := (Components (body a))[i := f (Components (body a) ! i)]\<rparr>\<rparr>
      else a)"

definition MergeMetric_func :: "nat \<Rightarrow> string \<Rightarrow> Metric \<Rightarrow> Time \<Rightarrow> Agent \<Rightarrow> error option \<times> reply option \<times> Agent" where
  "MergeMetric_func i name v now a =
     (None, None,
      on_component i (\<lambda>c. updateTiming (c\<lparr>Metrics := Metrics_AddMetric (Metrics c) name v\<rparr>) now) a)"

definition MergeMetrics_func :: "nat \<Rightarrow> Metrics \<Rightarrow> Time \<Rightarrow> Agent \<Rightarrow> error option \<times> reply option \<times> Agent" where
  "MergeMetrics_func i metrics now a =
     (None, None,
      on_component i (\<lambda>c. updateTiming (c\<lparr>Metrics := Metrics_MergeMetrics (Metrics c) metrics\<rparr>) now) a)"

fun call_op :: "opFunc \<Rightarrow> Agent \<Rightarrow> error option \<times> reply option \<times> Agent" where
  "call_op (Op_shutdown now w) a = shutdown now w a"
| "call_op Op_GetErr a = opGetErr_Exec a"
| "call_op (Op_addComponent name guid) a = addComponent_Exec name guid a"
| "call_op (Op_MergeMetric i name v now) a = MergeMetric_func i name v now a"
| "call_op (Op_MergeMetrics i metrics now) a = MergeMetrics_func i metrics now a"

section \<open>The runloop\<close>

text \<open>
  The state of \<^verbatim>\<open>Agent.run\<close>: the agent, the local variables \<^verbatim>\<open>timer\<close> (\<open>None\<close> for
  \<^verbatim>\<open>nil\<close>; of a timer, whether it is set and has yet to fire) and \<^verbatim>\<open>retryNeeded\<close>, and
  whether the loop is still running.
\<close>

record RunState =
  agent :: Agent
  timer :: "bool option"
  retryNeeded :: bool
  running :: bool

definition Start :: "Agent \<Rightarrow> RunState" where
  "Start a = \<lparr>agent = a, timer = None, retryNeeded = False, running = True\<rparr>"

text \<open>
  The closure \<^verbatim>\<open>trySend\<close>. Creating the timer and resetting it both leave a timer that
  will fire in a minute.
\<close>

definition trySend :: "RunState \<Rightarrow> Time \<Rightarrow> World \<Rightarrow> RunState" where
  "trySend st from w =
     (let (e, a1) = sendRequest (agent st) from w
      in if e = None
         then st\<lparr>retryNeeded := False, agent := clear (a1\<lparr>lastPoll := from\<rparr>)\<rparr>
         else if iserr e errMustRetry
         then st\<lparr>agent := a1, timer := Some True, retryNeeded := True\<rparr>
         else st\<lparr>agent := a1\<lparr>err := e\<rparr>\<rparr>)"

text \<open>
  What the \<^verbatim>\<open>select\<close> of the loop can receive: the retry timer firing, a tick of the
  ticker (both with the time they carry, and with the answers of the world should a send
  follow), a value from the channel of operations (\<open>None\<close> for a \<^verbatim>\<open>nil\<close> function), or
  the news that the channel is closed.
\<close>

datatype event =
    retry_fired Time World
  | tick Time World
  | op_received "opFunc option"
  | ops_closed_read

text \<open>
  One turn of the loop on an event, with what the operation replied. A loop that has
  returned takes no event.
\<close>

definition run_step :: "RunState \<Rightarrow> event \<Rightarrow> RunState \<times> reply option" where
  "run_step st ev =
     (if \<not> running st then (st, None)
      else case ev of
        retry_fired from w \<Rightarrow> (trySend (st\<lparr>timer := Some False\<rparr>) from w, None)
      | tick from w \<Rightarrow>
          let st1 = (if LogMetrics (agent st) then st\<lparr>agent := logMetrics (agent st)\<rparr> else st)
          in if \<not> retryNeeded st1 then (trySend st1 from w, None) else (st1, None)
      | ops_closed_read \<Rightarrow> (st\<lparr>running := False\<rparr>, None)
      | op_received None \<Rightarrow>
          (st\<lparr>agent := writeLog (agent st) (show_int ErrNilOpReceived @ [CHR 0x0A])\<rparr>, None)
      | op_received (Some op) \<Rightarrow>
          let (e, r, a1) = call_op op (agent st)
          in if iserr e errShuttingDown then (st\<lparr>agent := a1, running := False\<rparr>, r)
             else if e \<noteq> None then (st\<lparr>agent := a1\<lparr>err := e\<rparr>\<rparr>, r)
             else (st\<lparr>agent := a1\<rparr>, r))"

fun run_events :: "RunState \<Rightarrow> event list \<Rightarrow> RunState" where
  "run_events st [] = st"
| "run_events st (ev # evs) = run_events (fst (run_step st ev)) evs"

section \<open>Calls from other goroutines\<close>

text \<open>
  A call either returns, or panics (a send on the closed channel), or blocks for ever
  (a send that no loop receives).
\<close>

datatype 'a outcome = Returns 'a | Panics | Blocks

text \<open>\<^verbatim>\<open>Agent.Err\<close>: send the operation, receive the reply.\<close>

definition Err :: "RunState \<Rightarrow> (error option) outcome \<times> RunState" where
  "Err st =
     (if ops_closed (agent st) then (Panics, st)
      else if \<not> running st then (Blocks, st)
      else case run_step st (op_received (Some Op_GetErr)) of
             (st1, Some (err_reply e)) \<Rightarrow> (Returns e, st1)
           | (st1, r) \<Rightarrow> (Blocks, st1))"

text \<open>
  \<^verbatim>\<open>Agent.Close\<close>: \<^verbatim>\<open>err := a.Err()\<close>, then the send of \<^verbatim>\<open>shutdown\<close>, then
  \<^verbatim>\<open>return err\<close>. Between the two operations of the call the loop may take other events,
  \<open>between\<close>; \<open>now\<close> and \<open>w\<close> are the time and the world that \<^verbatim>\<open>shutdown\<close> meets when
  it runs. The send returns when the loop has received the function; the state returned
  here is the one in which the loop has also run it.
\<close>

definition Close :: "RunState \<Rightarrow> event list \<Rightarrow> Time \<Rightarrow> World \<Rightarrow> (error option) outcome \<times> RunState" where
  "Close st between now w =
     (case Err st of
        (Returns e, st1) \<Rightarrow>
          let st2 = run_events st1 between
          in if ops_closed (agent st2) then (Panics, st2)
             else if \<not> running st2 then (Blocks, st2)
             else (Returns e, fst (run_step st2 (op_received (Some (Op_shutdown now w)))))
      | (other, st1) \<Rightarrow> (other, st1))"

section \<open>Properties of the float64 operations\<close>

lemma fadd_commute: "fadd x y = fadd y x"
  by (cases x; cases y) (auto simp: Let_def min.commute add.commute)

lemma math_Min_commute: "math_Min x y = math_Min y x"
  by (cases x; cases y) (auto simp: math_Min_def signed_def split: if_splits)

lemma math_Max_commute: "math_Max x y = math_Max y x"
  by (cases x; cases y) (auto simp: math_Max_def signed_def split: if_splits)

lemma math_Min_assoc: "math_Min (math_Min x y) z = math_Min x (math_Min y z)"
  by (cases x; cases y; cases z) (auto simp: math_Min_def signed_def split: if_splits)

lemma math_Max_assoc: "math_Max (math_Max x y) z = math_Max x (math_Max y z)"
  by (cases x; cases y; cases z) (auto simp: math_Max_def signed_def split: if_splits)

text \<open>The length of a binary numeral, digit by digit, for evaluating \<open>fround\<close>.\<close>

lemma bitlen_0: "bitlen 0 = 0"
  by (simp add: bitlen.simps)

lemma bitlen_One: "bitlen (Suc 0) = 1"
  by (simp add: bitlen.simps [of "Suc 0"] bitlen_0)

lemma bitlen_Bit0: "bitlen (numeral (Num.Bit0 k)) = bitlen (numeral k) + 1"
  by (subst bitlen.simps) simp

lemma bitlen_Bit1: "bitlen (numeral (Num.Bit1 k)) = bitlen (numeral k) + 1"
  by (subst bitlen.simps) simp

lemmas float_eval = Let_def lsb_exp_def biased_exp_def significand_def fraction_def signed_def
  fround_def rne_def bitlen_0 bitlen_One bitlen_Bit0 bitlen_Bit1

text \<open>
  Sums and squares of small numbers: \<open>1 + 3 = 4\<close>, \<open>3^2 = 9\<close>, \<open>1^2 = 1\<close>, \<open>1 + 9 = 10\<close>,
  \<open>1 + 1 = 2\<close>; and at the edge of the 53 bits, \<open>2^53 + 1 = 2^53\<close> (the tie goes to the
  even significand) while \<open>2 + 2^53 = 2^53 + 2\<close> is exact.
\<close>

lemma fadd_1_3: "fadd (Fin False 0x3FF0000000000000) (Fin False 0x4008000000000000) = Fin False 0x4010000000000000"
  by (simp add: float_eval)

lemma Pow_2_3: "math_Pow_2 (Fin False 0x4008000000000000) = Fin False 0x4022000000000000"
  by (simp add: math_Pow_2_def float_eval)

lemma Pow_2_1: "math_Pow_2 (Fin False 0x3FF0000000000000) = Fin False 0x3FF0000000000000"
  by (simp add: math_Pow_2_def)

lemma fadd_1_9: "fadd (Fin False 0x3FF0000000000000) (Fin False 0x4022000000000000) = Fin False 0x4024000000000000"
  by (simp add: float_eval)

lemma Min_1_3: "math_Min (Fin False 0x3FF0000000000000) (Fin False 0x4008000000000000) = Fin False 0x3FF0000000000000"
  by (simp add: math_Min_def signed_def)

lemma Max_1_3: "math_Max (Fin False 0x3FF0000000000000) (Fin False 0x4008000000000000) = Fin False 0x4008000000000000"
  by (simp add: math_Max_def signed_def)

lemma fadd_2p53_1: "fadd (Fin False 0x4340000000000000) (Fin False 0x3FF0000000000000) = Fin False 0x4340000000000000"
  by (simp add: float_eval)

lemma fadd_1_1: "fadd (Fin False 0x3FF0000000000000) (Fin False 0x3FF0000000000000) = Fin False 0x4000000000000000"
  by (simp add: float_eval)

lemma fadd_2_2p53: "fadd (Fin False 0x4000000000000000) (Fin False 0x4340000000000000) = Fin False 0x4340000000000001"
  by (simp add: float_eval)

section \<open>Properties of the metrics\<close>

lemma Merge_as_range:
  "Merge x y = RangeMetric \<lparr>Total = fadd (Total (as_range x)) (Total (as_range y)),
      Count = Count (as_range x) + Count (as_range y),
      Min_v = math_Min (Min_v (as_range x)) (Min_v (as_range y)),
      Max_v = math_Max (Max_v (as_range x)) (Max_v (as_range y)),
      Square = fadd (Square (as_range x)) (Square (as_range y))\<rparr>"
  by (cases x; cases y) (simp_all add: RangeMetric_Merge_def promote_def fadd_commute
      math_Min_commute math_Max_commute add.commute)

text \<open>
  C1. Merging is commutative: for all float64 values \<open>a\<close> and \<open>b\<close>, merging
  \<open>ScalarMetric a\<close> with \<open>ScalarMetric b\<close> gives the same range as merging
  \<open>ScalarMetric b\<close> with \<open>ScalarMetric a\<close>, and a scalar merged with a range gives the
  same range as the range merged with the scalar. (Sameness is that of the numbers,
  infinities and NaN-ness of the fields, with one NaN.)
\<close>

theorem merge_commutative:
  "Merge (ScalarMetric a) (ScalarMetric b) = Merge (ScalarMetric b) (ScalarMetric a) \<and>
   Merge (ScalarMetric a) (RangeMetric r) = Merge (RangeMetric r) (ScalarMetric a) \<and>
   (\<exists>q. Merge (ScalarMetric a) (ScalarMetric b) = RangeMetric q) \<and>
   (\<exists>q. Merge (ScalarMetric a) (RangeMetric r) = RangeMetric q)"
  by (simp add: RangeMetric_Merge_def promote_def fadd_commute [of a b]
      math_Min_commute [of a b] math_Max_commute [of a b]
      fadd_commute [of "math_Pow_2 a" "math_Pow_2 b"])

text \<open>
  C2, as the code has it. Merging three metrics gives the same count, minimum and
  maximum however the two merges are grouped. The total and the sum of squares of each
  grouping are the float64 sums of the same three numbers in that grouping; they agree
  between the groupings when float64 addition happens to be associative on those
  numbers, which its rounding does not ensure.
\<close>

theorem merge_grouping:
  "\<exists>l r. Merge (Merge x y) z = RangeMetric l \<and> Merge x (Merge y z) = RangeMetric r \<and>
     Count l = Count r \<and> Min_v l = Min_v r \<and> Max_v l = Max_v r \<and>
     Total l = fadd (fadd (Total (as_range x)) (Total (as_range y))) (Total (as_range z)) \<and>
     Total r = fadd (Total (as_range x)) (fadd (Total (as_range y)) (Total (as_range z))) \<and>
     Square l = fadd (fadd (Square (as_range x)) (Square (as_range y))) (Square (as_range z)) \<and>
     Square r = fadd (Square (as_range x)) (fadd (Square (as_range y)) (Square (as_range z)))"
  unfolding Merge_as_range
  by (simp add: math_Min_assoc math_Max_assoc add.assoc)

text \<open>
  C2 as stated fails on the samples \<open>2^53\<close>, \<open>1\<close>, \<open>1\<close>: merged from the left the total
  is \<open>(2^53 + 1) + 1 = 2^53\<close>, merged from the right it is \<open>2^53 + (1 + 1) = 2^53 + 2\<close>.
\<close>

theorem merge_not_associative:
  "Merge (Merge (ScalarMetric (Fin False 0x4340000000000000)) (ScalarMetric (Fin False 0x3FF0000000000000)))
      (ScalarMetric (Fin False 0x3FF0000000000000))
   \<noteq> Merge (ScalarMetric (Fin False 0x4340000000000000))
      (Merge (ScalarMetric (Fin False 0x3FF0000000000000)) (ScalarMetric (Fin False 0x3FF0000000000000)))"
proof
  assume eq: "Merge (Merge (ScalarMetric (Fin False 0x4340000000000000)) (ScalarMetric (Fin False 0x3FF0000000000000)))
      (ScalarMetric (Fin False 0x3FF0000000000000))
   = Merge (ScalarMetric (Fin False 0x4340000000000000))
      (Merge (ScalarMetric (Fin False 0x3FF0000000000000)) (ScalarMetric (Fin False 0x3FF0000000000000)))"
  have "Total (as_range (Merge (Merge (ScalarMetric (Fin False 0x4340000000000000))
          (ScalarMetric (Fin False 0x3FF0000000000000))) (ScalarMetric (Fin False 0x3FF0000000000000))))
        = Fin False 0x4340000000000000"
    by (simp add: RangeMetric_Merge_def promote_def fadd_2p53_1 del: fadd.simps)
  moreover have "Total (as_range (Merge (ScalarMetric (Fin False 0x4340000000000000))
          (Merge (ScalarMetric (Fin False 0x3FF0000000000000)) (ScalarMetric (Fin False 0x3FF0000000000000)))))
        = Fin False 0x4340000000000001"
    by (simp add: RangeMetric_Merge_def promote_def fadd_1_1 fadd_2_2p53 del: fadd.simps)
  ultimately show False
    using eq by simp
qed

text \<open>
  C6. For every float64 \<open>v\<close>: \<open>Add\<close> on a scalar \<open>s\<close> is the range with total \<open>s + v\<close>,
  count 2, minimum \<open>min(s, v)\<close>, maximum \<open>max(s, v)\<close> and sum of squares \<open>s^2 + v^2\<close>
  (in float64 arithmetic); \<open>Add\<close> on a range is a range whose count is the count plus 1,
  in Go's \<^verbatim>\<open>int\<close>: the number one larger unless the count was the largest \<^verbatim>\<open>int\<close>.
\<close>

theorem add_fields:
  "Add (ScalarMetric s) v =
     RangeMetric \<lparr>Total = fadd s v, Count = 2, Min_v = math_Min s v, Max_v = math_Max s v,
       Square = fadd (math_Pow_2 s) (math_Pow_2 v)\<rparr> \<and>
   (\<exists>q. Add (RangeMetric r) v = RangeMetric q \<and> Count q = Count r + 1 \<and>
      (sint (Count r) < 2 ^ 63 - 1 \<longrightarrow> sint (Count q) = sint (Count r) + 1))"
proof -
  have "sint (Count r + 1) = sint (Count r) + 1" if "sint (Count r) < 2 ^ 63 - 1"
  proof -
    have "- (2 ^ 63) \<le> sint (Count r)"
      using sint_ge [of "Count r"] by simp
    with that show ?thesis
      by (simp add: sint_word_add signed_take_bit_int_eq_self)
  qed
  then show ?thesis
    by (simp add: ScalarMetric_Add_def RangeMetric_Add_def math_Min_commute [of v s]
      math_Max_commute [of v s])
qed

theorem add_fields_witness:
  "Add (ScalarMetric (Fin False 0x3FF0000000000000)) (Fin False 0x4008000000000000) =
     RangeMetric \<lparr>Total = Fin False 0x4010000000000000, Count = 2,
       Min_v = Fin False 0x3FF0000000000000, Max_v = Fin False 0x4008000000000000,
       Square = Fin False 0x4024000000000000\<rparr> \<and>
   sint (5 :: 64 word) < 2 ^ 63 - 1 \<and>
   (\<exists>q. Add (RangeMetric \<lparr>Total = Fin False 0, Count = 5, Min_v = Fin False 0,
        Max_v = Fin False 0, Square = Fin False 0\<rparr>) (Fin False 0x4008000000000000) = RangeMetric q \<and>
      Count q = 6 \<and> sint (Count q) = 6)"
  using add_fields [of "Fin False 0x3FF0000000000000" "Fin False 0x4008000000000000"
      "\<lparr>Total = Fin False 0, Count = 5, Min_v = Fin False 0,
        Max_v = Fin False 0, Square = Fin False 0\<rparr>"]
  by (simp add: fadd_1_3 Pow_2_3 Pow_2_1 fadd_1_9 Min_1_3 Max_1_3 del: fadd.simps Add.simps)

end
